theory Spec2Isabelle
  imports Main "HOL-Library.Sublist" "HOL-Library.AList"
begin

section \<open>Data model\<close>

text \<open>
  The service worker exists in three variants: the full worker with three caching
  strategies (cache version 1.0.1), the short worker \<^verbatim>\<open>sw.js\<close> (cache version 1.0.2)
  and a minimal worker that only reads the cache. Requests, responses, the cache
  storage and the network are platform objects; the model keeps the parts the
  workers read and write.
\<close>

type_synonym headers = "(string \<times> string) list"

text \<open>
  A request carries its method (\<^verbatim>\<open>request.method\<close>, here \<open>req_method\<close>), its URL
  as a string (\<^verbatim>\<open>request.url\<close>), the components that \<^verbatim>\<open>new URL(request.url)\<close>
  yields (protocol, hostname, pathname, origin), its destination, its headers, and what \<^verbatim>\<open>request.formData()\<close> gives (\<open>None\<close> when it
  rejects).
\<close>

record request =
  req_method :: string
  url :: string
  protocol :: string
  hostname :: string
  pathname :: string
  origin :: string
  destination :: string
  req_headers :: headers
  formData :: "headers option"

record response =
  status :: nat
  statusText :: string
  resp_headers :: headers
  body :: string

text \<open>\<^verbatim>\<open>self.location\<close>: the worker's own origin and host name.\<close>

record location =
  loc_origin :: string
  loc_hostname :: string

datatype error = NetworkError string | TypeError string

text \<open>The outcome of one \<^verbatim>\<open>fetch(request)\<close>: a response of any status, or a rejection.\<close>

datatype net_outcome = NetOk response | NetError string

type_synonym network = "request \<Rightarrow> net_outcome"

subsection \<open>String helpers of the source language\<close>

definition startsWith :: "string \<Rightarrow> string \<Rightarrow> bool" where
  "startsWith s t = prefix t s"

definition endsWith :: "string \<Rightarrow> string \<Rightarrow> bool" where
  "endsWith s t = suffix t s"

definition str_includes :: "string \<Rightarrow> string \<Rightarrow> bool" where
  "str_includes s t = sublist t s"

subsection \<open>Cache storage\<close>

text \<open>
  The cache storage of the platform is not part of the repository; the model follows
  the contract the worker relies on. A store maps a request identity (method and URL) to
  a stored response; \<open>put\<close> overwrites the entry of the same key. The storage is
  the list of named stores in creation order. \<^verbatim>\<open>caches.open(name)\<close> creates an empty
  store at the end when the name is new. \<^verbatim>\<open>caches.match(request)\<close>, which all three
  strategies use for their lookup, is not a lookup in one named store: it searches
  every store in creation order and yields the first entry found.
\<close>

type_synonym request_key = "string \<times> string"

type_synonym cache = "(request_key \<times> response) list"

type_synonym cache_storage = "(string \<times> cache) list"

definition request_key :: "request \<Rightarrow> request_key" where
  "request_key r = (req_method r, url r)"

definition cache_match :: "cache \<Rightarrow> request_key \<Rightarrow> response option" where
  "cache_match c k = map_of c k"

definition cache_put :: "request_key \<Rightarrow> response \<Rightarrow> cache \<Rightarrow> cache" where
  "cache_put k r c = AList.update k r c"

fun caches_match_key :: "cache_storage \<Rightarrow> request_key \<Rightarrow> response option" where
  "caches_match_key [] k = None"
| "caches_match_key ((name, c) # cs) k =
     (case cache_match c k of Some r \<Rightarrow> Some r | None \<Rightarrow> caches_match_key cs k)"

definition caches_match :: "cache_storage \<Rightarrow> request \<Rightarrow> response option" where
  "caches_match cs r = caches_match_key cs (request_key r)"

definition caches_open :: "string \<Rightarrow> cache_storage \<Rightarrow> cache_storage" where
  "caches_open name cs = (case map_of cs name of Some c \<Rightarrow> cs | None \<Rightarrow> cs @ [(name, [])])"

definition store :: "cache_storage \<Rightarrow> string \<Rightarrow> cache" where
  "store cs name = (case map_of cs name of Some c \<Rightarrow> c | None \<Rightarrow> [])"

text \<open>\<^verbatim>\<open>caches.open(name)\<close> followed by \<^verbatim>\<open>cache.put(request, response)\<close> on the handle.\<close>

definition caches_put :: "string \<Rightarrow> request \<Rightarrow> response \<Rightarrow> cache_storage \<Rightarrow> cache_storage" where
  "caches_put name rq rs cs =
     (let cs' = caches_open name cs
      in AList.update name (cache_put (request_key rq) rs (store cs' name)) cs')"

text \<open>The entry of a key in one named store.\<close>

definition store_entry :: "cache_storage \<Rightarrow> string \<Rightarrow> request \<Rightarrow> response option" where
  "store_entry cs name rq = cache_match (store cs name) (request_key rq)"

text \<open>
  The state a strategy runs in: the cache storage and the log of the requests that were
  sent to the network.
\<close>

record world =
  caches :: cache_storage
  fetched :: "request list"

definition do_fetch :: "request \<Rightarrow> world \<Rightarrow> world" where
  "do_fetch rq w = w\<lparr>fetched := fetched w @ [rq]\<rparr>"

section \<open>The worker with three strategies\<close>

definition STATIC_CACHE :: string where
  "STATIC_CACHE = ''static-v1.0.1''"

definition DYNAMIC_CACHE :: string where
  "DYNAMIC_CACHE = ''dynamic-v1.0.1''"

subsection \<open>The offline page\<close>

text \<open>
  The body is the template literal of \<^verbatim>\<open>createOfflinePage\<close>, line by line: it starts
  with a line break and ends with four blanks after the last line break. The plug
  symbol U+1F50C is written as the four bytes of its UTF-8 encoding.
\<close>

definition offline_lines :: "string list" where
  "offline_lines =
    [
     [],
     ''        <!DOCTYPE html>'',
     ''        <html lang=\"en\">'',
     ''        <head>'',
     ''            <meta charset=\"UTF-8\">'',
     ''            <meta name=\"viewport\" content=\"width=device-width, initial-scale=1.0\">'',
     ''            <title>Offline - John Doe Portfolio</title>'',
     ''            <style>'',
     ''                body {'',
     ''                    font-family: -apple-system, BlinkMacSystemFont, 'Segoe UI', Roboto, sans-serif;'',
     ''                    background: linear-gradient(135deg, #667eea 0%, #764ba2 100%);'',
     ''                    color: white;'',
     ''                    height: 100vh;'',
     ''                    margin: 0;'',
     ''                    display: flex;'',
     ''                    align-items: center;'',
     ''                    justify-content: center;'',
     ''                    text-align: center;'',
     ''                }'',
     ''                .offline-content {'',
     ''                    max-width: 400px;'',
     ''                    padding: 2rem;'',
     ''                }'',
     ''                .offline-icon {'',
     ''                    font-size: 4rem;'',
     ''                    margin-bottom: 1rem;'',
     ''                }'',
     ''                h1 {'',
     ''                    margin-bottom: 1rem;'',
     ''                    font-size: 2rem;'',
     ''                }'',
     ''                p {'',
     ''                    margin-bottom: 2rem;'',
     ''                    opacity: 0.9;'',
     ''                }'',
     ''                .retry-button {'',
     ''                    background: rgba(255, 255, 255, 0.2);'',
     ''                    border: 2px solid white;'',
     ''                    color: white;'',
     ''                    padding: 0.8rem 2rem;'',
     ''                    border-radius: 50px;'',
     ''                    cursor: pointer;'',
     ''                    font-size: 1rem;'',
     ''                    font-weight: 600;'',
     ''                    transition: all 0.3s ease;'',
     ''                }'',
     ''                .retry-button:hover {'',
     ''                    background: white;'',
     ''                    color: #667eea;'',
     ''                }'',
     ''            </style>'',
     ''        </head>'',
     ''        <body>'',
     ''            <div class=\"offline-content\">'',
     ''                <div class=\"offline-icon\">'' @ [CHR 0xF0, CHR 0x9F, CHR 0x94, CHR 0x8C] @ ''</div>'',
     ''                <h1>You're Offline</h1>'',
     ''                <p>This page isn't available offline. Please check your internet connection and try again.</p>'',
     ''                <button class=\"retry-button\" onclick=\"window.location.reload()\">'',
     ''                    Try Again'',
     ''                </button>'',
     ''            </div>'',
     ''        </body>'',
     ''        </html>''
    ]"

definition offline_body :: string where
  "offline_body = concat (map (\<lambda>l. l @ [CHR 0x0A]) offline_lines) @ ''    ''"

text \<open>
  \<^verbatim>\<open>new Response(body, {headers: ...})\<close>: the status defaults to 200 and the status
  text to the empty string.
\<close>

definition createOfflinePage :: response where
  "createOfflinePage =
     \<lparr>status = 200, statusText = [],
      resp_headers = [(''Content-Type'', ''text/html''), (''Cache-Control'', ''no-cache'')],
      body = offline_body\<rparr>"

definition unavailable :: response where
  "unavailable =
     \<lparr>status = 503, statusText = ''Service Unavailable'', resp_headers = [],
      body = ''Offline''\<rparr>"

subsection \<open>Strategies\<close>

text \<open>
  A strategy returns the value its promise settles with (\<open>Inl\<close> for a rejection) and
  the state after its cache write, which the source starts without awaiting it.
\<close>

definition cacheFirstStrategy ::
  "network \<Rightarrow> request \<Rightarrow> string \<Rightarrow> world \<Rightarrow> (error + response) \<times> world" where
  "cacheFirstStrategy net rq cacheName w =
     (case caches_match (caches w) rq of
        Some cachedResponse \<Rightarrow> (Inr cachedResponse, w)
      | None \<Rightarrow>
          (let w1 = do_fetch rq w in
           case net rq of
             NetOk networkResponse \<Rightarrow>
               (if status networkResponse = 200
                then (Inr networkResponse,
                      w1\<lparr>caches := caches_put cacheName rq networkResponse (caches w1)\<rparr>)
                else (Inr networkResponse, w1))
           | NetError e \<Rightarrow>
               (if destination rq = ''document''
                then (Inr createOfflinePage, w1)
                else (Inr unavailable, w1))))"

definition networkFirstStrategy ::
  "network \<Rightarrow> request \<Rightarrow> string \<Rightarrow> world \<Rightarrow> (error + response) \<times> world" where
  "networkFirstStrategy net rq cacheName w =
     (let w1 = do_fetch rq w in
      case net rq of
        NetOk networkResponse \<Rightarrow>
          (if status networkResponse = 200
           then (Inr networkResponse,
                 w1\<lparr>caches := caches_put cacheName rq networkResponse (caches w1)\<rparr>)
           else (Inr networkResponse, w1))
      | NetError e \<Rightarrow>
          (case caches_match (caches w1) rq of
             Some cachedResponse \<Rightarrow> (Inr cachedResponse, w1)
           | None \<Rightarrow> (Inl (NetworkError e), w1)))"

text \<open>
  The promise \<^verbatim>\<open>fetchPromise\<close> of the third strategy: the fetch, its \<^verbatim>\<open>then\<close> branch
  with the cache write, and its \<^verbatim>\<open>catch\<close> branch. It always fulfils.
\<close>

definition fetchPromise ::
  "network \<Rightarrow> request \<Rightarrow> string \<Rightarrow> response option \<Rightarrow> world \<Rightarrow> response \<times> world" where
  "fetchPromise net rq cacheName cachedResponse w =
     (let w1 = do_fetch rq w in
      case net rq of
        NetOk networkResponse \<Rightarrow>
          (if status networkResponse = 200
           then (networkResponse,
                 w1\<lparr>caches := caches_put cacheName rq networkResponse (caches w1)\<rparr>)
           else (networkResponse, w1))
      | NetError e \<Rightarrow>
          (case cachedResponse of
             Some r \<Rightarrow> (r, w1)
           | None \<Rightarrow> (createOfflinePage, w1)))"

text \<open>
  The strategy returns \<^verbatim>\<open>cachedResponse || fetchPromise\<close>: the cached response as a
  value when there is one, the promise otherwise. The fetch is started in both cases,
  and the state returned is the one after it has settled.
\<close>

definition staleWhileRevalidateStrategy ::
  "network \<Rightarrow> request \<Rightarrow> string \<Rightarrow> world \<Rightarrow> (error + response) \<times> world" where
  "staleWhileRevalidateStrategy net rq cacheName w =
     (let cachedResponse = caches_match (caches w) rq;
          settled = fetchPromise net rq cacheName cachedResponse w
      in case cachedResponse of
           Some r \<Rightarrow> (Inr r, snd settled)
         | None \<Rightarrow> (Inr (fst settled), snd settled))"

subsection \<open>Request types\<close>

definition isStaticAsset :: "request \<Rightarrow> bool" where
  "isStaticAsset rq \<longleftrightarrow>
     pathname rq = ''/'' \<or>
     pathname rq = ''/index.html'' \<or>
     pathname rq = ''/manifest.json'' \<or>
     endsWith (pathname rq) ''.css'' \<or>
     endsWith (pathname rq) ''.js'' \<or>
     endsWith (pathname rq) ''.png'' \<or>
     endsWith (pathname rq) ''.jpg'' \<or>
     endsWith (pathname rq) ''.svg'' \<or>
     endsWith (pathname rq) ''.ico''"

definition isFont :: "request \<Rightarrow> bool" where
  "isFont rq \<longleftrightarrow>
     hostname rq = ''fonts.googleapis.com'' \<or>
     hostname rq = ''fonts.gstatic.com'' \<or>
     endsWith (pathname rq) ''.woff'' \<or>
     endsWith (pathname rq) ''.woff2'' \<or>
     endsWith (pathname rq) ''.ttf'' \<or>
     endsWith (pathname rq) ''.otf''"

definition isAPIRequest :: "location \<Rightarrow> request \<Rightarrow> bool" where
  "isAPIRequest loc rq \<longleftrightarrow>
     startsWith (pathname rq) ''/api/'' \<or> hostname rq \<noteq> loc_hostname loc"

datatype category = StaticAsset | Font | ApiRequest | Other

text \<open>The chain of tests of the fetch listener, in its order.\<close>

definition classify :: "location \<Rightarrow> request \<Rightarrow> category" where
  "classify loc rq =
     (if isStaticAsset rq then StaticAsset
      else if isFont rq then Font
      else if isAPIRequest loc rq then ApiRequest
      else Other)"

subsection \<open>Fetch listeners\<close>

datatype strategy = CacheFirst | NetworkFirst | StaleWhileRevalidate

text \<open>
  A listener either returns without calling \<^verbatim>\<open>event.respondWith\<close>, and the request
  goes to the network untouched, or it responds with a strategy on a store.
\<close>

datatype handling = Declined | RespondWith strategy string

definition fetch_listener :: "location \<Rightarrow> request \<Rightarrow> handling" where
  "fetch_listener loc rq =
     (if req_method rq \<noteq> ''GET'' then Declined
      else if \<not> startsWith (url rq) ''http'' then Declined
      else if protocol rq = ''chrome-extension:'' then Declined
      else case classify loc rq of
             StaticAsset \<Rightarrow> RespondWith CacheFirst STATIC_CACHE
           | Font \<Rightarrow> RespondWith CacheFirst DYNAMIC_CACHE
           | ApiRequest \<Rightarrow> RespondWith NetworkFirst DYNAMIC_CACHE
           | Other \<Rightarrow> RespondWith StaleWhileRevalidate DYNAMIC_CACHE)"

definition run_strategy ::
  "strategy \<Rightarrow> network \<Rightarrow> request \<Rightarrow> string \<Rightarrow> world \<Rightarrow> (error + response) \<times> world" where
  "run_strategy s =
     (case s of
        CacheFirst \<Rightarrow> cacheFirstStrategy
      | NetworkFirst \<Rightarrow> networkFirstStrategy
      | StaleWhileRevalidate \<Rightarrow> staleWhileRevalidateStrategy)"

text \<open>
  \<^verbatim>\<open>Response.redirect(url, status)\<close>: an empty response of that status whose
  \<^verbatim>\<open>Location\<close> header is the URL, resolved against the worker's origin.
\<close>

definition redirect :: "location \<Rightarrow> string \<Rightarrow> nat \<Rightarrow> response" where
  "redirect loc path st =
     \<lparr>status = st, statusText = [], resp_headers = [(''Location'', loc_origin loc @ path)],
      body = []\<rparr>"

definition handleShareTarget :: "location \<Rightarrow> request \<Rightarrow> response" where
  "handleShareTarget loc rq =
     (case formData rq of
        Some fd \<Rightarrow> redirect loc ''/?shared=true'' 303
      | None \<Rightarrow> redirect loc ''/'' 303)"

text \<open>The second fetch listener of the worker: the share target.\<close>

definition share_target_listener :: "location \<Rightarrow> request \<Rightarrow> response option" where
  "share_target_listener loc rq =
     (if pathname rq = ''/share-target'' \<and> req_method rq = ''POST''
      then Some (handleShareTarget loc rq)
      else None)"

text \<open>
  What the worker does with a fetch event: both listeners run, in the order of their
  registration.
\<close>

datatype event_result = PassThrough | Strategy strategy string | Answer response

definition worker_fetch_event :: "location \<Rightarrow> request \<Rightarrow> event_result" where
  "worker_fetch_event loc rq =
     (case fetch_listener loc rq of
        RespondWith s name \<Rightarrow> Strategy s name
      | Declined \<Rightarrow>
          (case share_target_listener loc rq of
             Some r \<Rightarrow> Answer r
           | None \<Rightarrow> PassThrough))"

section \<open>The short worker\<close>

definition SW_DYNAMIC_CACHE :: string where
  "SW_DYNAMIC_CACHE = ''dynamic-v1.0.2''"

definition BASE_URL :: string where
  "BASE_URL = ''/native-pwa/''"

text \<open>
  The \<^verbatim>\<open>catch\<close> branch of the short worker. \<^verbatim>\<open>request.headers.get("accept")\<close> is
  \<open>null\<close> without such a header, and the call of \<^verbatim>\<open>includes\<close> on it throws; header
  names are kept in lower case. A promise that fulfils with \<open>undefined\<close> is not a
  response, and the event fails.
\<close>

definition sw_offline :: "location \<Rightarrow> request \<Rightarrow> cache_storage \<Rightarrow> error + response" where
  "sw_offline loc rq cs =
     (case map_of (req_headers rq) ''accept'' of
        None \<Rightarrow> Inl (TypeError ''accept is null'')
      | Some a \<Rightarrow>
          (if str_includes a ''text/html''
           then (case caches_match_key cs (''GET'', loc_origin loc @ BASE_URL @ ''index.html'') of
                   Some r \<Rightarrow> Inr r
                 | None \<Rightarrow> Inl (TypeError ''undefined is not a Response''))
           else Inl (TypeError ''undefined is not a Response'')))"

definition sw_respond ::
  "network \<Rightarrow> location \<Rightarrow> request \<Rightarrow> world \<Rightarrow> (error + response) \<times> world" where
  "sw_respond net loc rq w =
     (case caches_match (caches w) rq of
        Some response \<Rightarrow> (Inr response, w)
      | None \<Rightarrow>
          (let w1 = do_fetch rq w in
           case net rq of
             NetOk fetchResponse \<Rightarrow>
               (Inr fetchResponse,
                w1\<lparr>caches := caches_put SW_DYNAMIC_CACHE rq fetchResponse (caches w1)\<rparr>)
           | NetError e \<Rightarrow> (sw_offline loc rq (caches w1), w1)))"

text \<open>Whether the listener of the short worker responds to the event.\<close>

definition sw_fetch_listener :: "location \<Rightarrow> request \<Rightarrow> bool" where
  "sw_fetch_listener loc rq =
     (if req_method rq \<noteq> ''GET'' then False
      else if \<not> startsWith (url rq) ''http'' then False
      else startsWith (pathname rq) BASE_URL \<or> origin rq = loc_origin loc)"

section \<open>The minimal worker\<close>

text \<open>It responds to every fetch event, from the cache or else from the network.\<close>

definition minimal_respond ::
  "network \<Rightarrow> request \<Rightarrow> world \<Rightarrow> (error + response) \<times> world" where
  "minimal_respond net rq w =
     (case caches_match (caches w) rq of
        Some response \<Rightarrow> (Inr response, w)
      | None \<Rightarrow>
          (let w1 = do_fetch rq w in
           case net rq of
             NetOk r \<Rightarrow> (Inr r, w1)
           | NetError e \<Rightarrow> (Inl (NetworkError e), w1)))"

section \<open>Sample requests, responses and states\<close>

definition app_location :: location where
  "app_location = \<lparr>loc_origin = ''https://example.com'', loc_hostname = ''example.com''\<rparr>"

definition page_request :: request where
  "page_request =
     \<lparr>req_method = ''GET'', url = ''https://example.com/about'', protocol = ''https:'',
      hostname = ''example.com'', pathname = ''/about'', origin = ''https://example.com'',
      destination = ''document'', req_headers = [(''accept'', ''text/html'')],
      formData = None\<rparr>"

definition logo_request :: request where
  "logo_request =
     \<lparr>req_method = ''GET'', url = ''https://example.com/native-pwa/logo.png'',
      protocol = ''https:'', hostname = ''example.com'', pathname = ''/native-pwa/logo.png'',
      origin = ''https://example.com'', destination = ''image'',
      req_headers = [(''accept'', ''image/png'')], formData = None\<rparr>"

definition font_request :: request where
  "font_request =
     \<lparr>req_method = ''GET'', url = ''https://fonts.googleapis.com/css2?family=Inter'',
      protocol = ''https:'', hostname = ''fonts.googleapis.com'', pathname = ''/css2'',
      origin = ''https://fonts.googleapis.com'', destination = ''style'',
      req_headers = [(''accept'', ''text/css'')], formData = None\<rparr>"

definition cdn_css_request :: request where
  "cdn_css_request =
     \<lparr>req_method = ''GET'', url = ''https://cdn.example.net/theme.css'', protocol = ''https:'',
      hostname = ''cdn.example.net'', pathname = ''/theme.css'',
      origin = ''https://cdn.example.net'', destination = ''style'',
      req_headers = [(''accept'', ''text/css'')], formData = None\<rparr>"

definition share_request :: request where
  "share_request =
     \<lparr>req_method = ''POST'', url = ''https://example.com/share-target'', protocol = ''https:'',
      hostname = ''example.com'', pathname = ''/share-target'',
      origin = ''https://example.com'', destination = [],
      req_headers = [], formData = Some [(''title'', ''Hello'')]\<rparr>"

definition post_request :: request where
  "post_request =
     \<lparr>req_method = ''POST'', url = ''https://example.com/api/contact'', protocol = ''https:'',
      hostname = ''example.com'', pathname = ''/api/contact'',
      origin = ''https://example.com'', destination = [],
      req_headers = [], formData = Some [(''name'', ''Ann'')]\<rparr>"

definition extension_request :: request where
  "extension_request =
     \<lparr>req_method = ''GET'', url = ''chrome-extension://abcdef/content.js'',
      protocol = ''chrome-extension:'', hostname = ''abcdef'', pathname = ''/content.js'',
      origin = ''chrome-extension://abcdef'', destination = ''script'',
      req_headers = [], formData = None\<rparr>"

definition ok_response :: "string \<Rightarrow> response" where
  "ok_response b = \<lparr>status = 200, statusText = ''OK'', resp_headers = [], body = b\<rparr>"

definition not_found_response :: response where
  "not_found_response =
     \<lparr>status = 404, statusText = ''Not Found'', resp_headers = [], body = ''no such file''\<rparr>"

definition empty_world :: world where
  "empty_world = \<lparr>caches = [], fetched = []\<rparr>"

text \<open>
  Both stores hold an entry for the font stylesheet: the static store, created first, an
  older one.
\<close>

definition two_store_world :: world where
  "two_store_world =
     \<lparr>caches =
        [(STATIC_CACHE, [(request_key font_request, ok_response ''old'')]),
         (DYNAMIC_CACHE, [(request_key font_request, ok_response ''new'')])],
      fetched = []\<rparr>"

text \<open>Only the static store holds an entry for the font stylesheet.\<close>

definition static_only_world :: world where
  "static_only_world =
     \<lparr>caches =
        [(STATIC_CACHE, [(request_key font_request, ok_response ''old'')]),
         (DYNAMIC_CACHE, [])],
      fetched = []\<rparr>"

definition offline_net :: network where
  "offline_net rq = NetError ''Failed to fetch''"

definition net_of :: "response \<Rightarrow> network" where
  "net_of r rq = NetOk r"

section \<open>Facts about the cache storage\<close>

lemma map_of_caches_open:
  "map_of (caches_open name cs) name' =
     (if name' = name \<and> map_of cs name = None then Some [] else map_of cs name')"
  by (auto simp: caches_open_def map_add_def split: option.splits)

lemma store_caches_open: "store (caches_open name cs) name' = store cs name'"
  by (simp add: store_def map_of_caches_open split: option.splits)

lemma store_caches_put:
  "store (caches_put name rq rs cs) name' =
     (if name' = name then cache_put (request_key rq) rs (store cs name) else store cs name')"
  by (simp add: caches_put_def Let_def store_def[of "AList.update _ _ _"] update_conv' store_caches_open)
     (simp add: store_def map_of_caches_open)

lemma cache_match_put:
  "cache_match (cache_put k r c) k' = (if k' = k then Some r else cache_match c k')"
  by (simp add: cache_match_def cache_put_def update_conv')

lemma store_entry_caches_put:
  "store_entry (caches_put name rq rs cs) name' rq' =
     (if name' = name \<and> request_key rq' = request_key rq then Some rs
      else store_entry cs name' rq')"
  by (simp add: store_entry_def store_caches_put cache_match_put)

lemma caches_match_key_first:
  "caches_match_key (takeWhile (\<lambda>p. fst p \<noteq> name) cs) k = None \<Longrightarrow>
   cache_match (store cs name) k = Some r \<Longrightarrow> caches_match_key cs k = Some r"
proof (induction cs)
  case Nil
  then show ?case by (simp add: store_def cache_match_def)
next
  case (Cons p cs)
  obtain n c where p: "p = (n, c)" by (cases p)
  show ?case
  proof (cases "n = name")
    case True
    with Cons.prems p show ?thesis by (simp add: store_def)
  next
    case False
    with Cons.prems p have "cache_match c k = None"
      by (simp split: option.splits)
    moreover from Cons.prems p False
    have "caches_match_key (takeWhile (\<lambda>p. fst p \<noteq> name) cs) k = None"
      by (simp split: option.splits)
    moreover from Cons.prems p False have "cache_match (store cs name) k = Some r"
      by (simp add: store_def)
    ultimately show ?thesis using Cons.IH p by simp
  qed
qed

lemma caches_match_key_some:
  "cache_match (store cs name) k = Some r \<Longrightarrow> \<exists>r'. caches_match_key cs k = Some r'"
proof (induction cs)
  case Nil
  then show ?case by (simp add: store_def cache_match_def)
next
  case (Cons p cs)
  obtain n c where p: "p = (n, c)" by (cases p)
  show ?case
  proof (cases "cache_match c k")
    case None
    with Cons.prems p have "n \<noteq> name" by (auto simp: store_def)
    with Cons.prems p have "cache_match (store cs name) k = Some r" by (simp add: store_def)
    with Cons.IH None p show ?thesis by simp
  next
    case (Some a)
    with p show ?thesis by simp
  qed
qed

lemma do_fetch_caches: "caches (do_fetch rq w) = caches w"
  by (simp add: do_fetch_def)

lemma do_fetch_fetched: "fetched (do_fetch rq w) = fetched w @ [rq]"
  by (simp add: do_fetch_def)

section \<open>Facts about the offline page\<close>

lemma offline_body_includes:
  assumes "l \<in> set offline_lines" and "sublist t l"
  shows "str_includes offline_body t"
proof -
  from assms(1) obtain xs ys where lines: "offline_lines = xs @ l # ys"
    by (auto simp: in_set_conv_decomp)
  from assms(2) obtain ps ss where l: "l = ps @ t @ ss"
    by (auto simp: sublist_def)
  have "offline_body =
      (concat (map (\<lambda>l. l @ [CHR 0x0A]) xs) @ ps) @ t @
      (ss @ [CHR 0x0A] @ concat (map (\<lambda>l. l @ [CHR 0x0A]) ys) @ ''    '')"
    unfolding offline_body_def lines l by simp
  then show ?thesis
    unfolding str_includes_def by (metis sublist_appendI)
qed

lemma offline_heading: "str_includes offline_body ''You're Offline''"
proof (rule offline_body_includes)
  show "''                <h1>You're Offline</h1>'' \<in> set offline_lines"
    by (simp add: offline_lines_def)
  show "sublist ''You're Offline'' ''                <h1>You're Offline</h1>''"
    by code_simp
qed

lemma offline_advice:
  "str_includes offline_body ''Please check your internet connection and try again.''"
proof (rule offline_body_includes)
  show "''                <p>This page isn't available offline. Please check your internet connection and try again.</p>''
          \<in> set offline_lines"
    by (simp add: offline_lines_def)
  show "sublist ''Please check your internet connection and try again.''
          ''                <p>This page isn't available offline. Please check your internet connection and try again.</p>''"
    by code_simp
qed

lemma offline_retry_action:
  "str_includes offline_body ''<button class=\"retry-button\" onclick=\"window.location.reload()\">''"
proof (rule offline_body_includes)
  show "''                <button class=\"retry-button\" onclick=\"window.location.reload()\">''
          \<in> set offline_lines"
    by (simp add: offline_lines_def)
  show "sublist ''<button class=\"retry-button\" onclick=\"window.location.reload()\">''
          ''                <button class=\"retry-button\" onclick=\"window.location.reload()\">''"
    by code_simp
qed

lemma offline_retry_label: "str_includes offline_body ''Try Again''"
proof (rule offline_body_includes)
  show "''                    Try Again'' \<in> set offline_lines"
    by (simp add: offline_lines_def)
  show "sublist ''Try Again'' ''                    Try Again''"
    by code_simp
qed

section \<open>What the strategies write\<close>

lemma cacheFirst_writes:
  assumes "store_entry (caches (snd (cacheFirstStrategy net rq name w))) n q = Some r"
  shows "store_entry (caches w) n q = Some r \<or>
         (net rq = NetOk r \<and> status r = 200 \<and> n = name \<and> request_key q = request_key rq)"
  using assms
  by (auto simp: cacheFirstStrategy_def Let_def do_fetch_caches store_entry_caches_put
           split: option.splits net_outcome.splits if_splits)

lemma networkFirst_writes:
  assumes "store_entry (caches (snd (networkFirstStrategy net rq name w))) n q = Some r"
  shows "store_entry (caches w) n q = Some r \<or>
         (net rq = NetOk r \<and> status r = 200 \<and> n = name \<and> request_key q = request_key rq)"
  using assms
  by (auto simp: networkFirstStrategy_def Let_def do_fetch_caches store_entry_caches_put
           split: option.splits net_outcome.splits if_splits)

lemma fetchPromise_writes:
  assumes "store_entry (caches (snd (fetchPromise net rq name c w))) n q = Some r"
  shows "store_entry (caches w) n q = Some r \<or>
         (net rq = NetOk r \<and> status r = 200 \<and> n = name \<and> request_key q = request_key rq)"
  using assms
  by (auto simp: fetchPromise_def Let_def do_fetch_caches store_entry_caches_put
           split: option.splits net_outcome.splits if_splits)

lemma staleWhileRevalidate_writes:
  assumes "store_entry (caches (snd (staleWhileRevalidateStrategy net rq name w))) n q = Some r"
  shows "store_entry (caches w) n q = Some r \<or>
         (net rq = NetOk r \<and> status r = 200 \<and> n = name \<and> request_key q = request_key rq)"
proof -
  have "snd (staleWhileRevalidateStrategy net rq name w) =
        snd (fetchPromise net rq name (caches_match (caches w) rq) w)"
    by (simp add: staleWhileRevalidateStrategy_def Let_def split: option.splits)
  with assms show ?thesis by (simp add: fetchPromise_writes)
qed

lemma strategy_writes:
  assumes "store_entry (caches (snd (run_strategy s net rq name w))) n q = Some r"
  shows "store_entry (caches w) n q = Some r \<or>
         (net rq = NetOk r \<and> status r = 200 \<and> n = name \<and> request_key q = request_key rq)"
proof (cases s)
  case CacheFirst
  with assms show ?thesis by (simp add: run_strategy_def cacheFirst_writes)
next
  case NetworkFirst
  with assms show ?thesis by (simp add: run_strategy_def networkFirst_writes)
next
  case StaleWhileRevalidate
  with assms show ?thesis by (simp add: run_strategy_def staleWhileRevalidate_writes)
qed

lemma strategy_offline_no_write:
  assumes "net rq = NetError e"
  shows "caches (snd (run_strategy s net rq name w)) = caches w"
  using assms
  by (cases s)
     (simp_all add: run_strategy_def cacheFirstStrategy_def networkFirstStrategy_def
        staleWhileRevalidateStrategy_def fetchPromise_def Let_def do_fetch_caches
        split: option.splits)

text \<open>
  The three strategies keep the stores free of responses of another status than 200,
  and the minimal worker writes nothing when it serves a request.
\<close>

lemma strategy_keeps_status_200:
  assumes "\<forall>n q r. store_entry (caches w) n q = Some r \<longrightarrow> status r = 200"
    and "store_entry (caches (snd (run_strategy s net rq name w))) n q = Some r"
  shows "status r = 200"
  using strategy_writes [OF assms(2)] assms(1) by blast

lemma minimal_respond_no_write: "caches (snd (minimal_respond net rq w)) = caches w"
  by (simp add: minimal_respond_def Let_def do_fetch_caches
        split: option.splits net_outcome.splits)

section \<open>Cache-first strategy\<close>

text \<open>
  C1 (as the code has it). The lookup of \<^verbatim>\<open>cacheFirstStrategy\<close> is
  \<^verbatim>\<open>caches.match(request)\<close>, over all stores. If any store has an entry for the request's
  key, the strategy returns the first one in creation order and leaves the state as it
  was: no request is sent to the network and nothing is written. So when the named store
  has an entry, a cached response is returned without a network fetch, and it is the
  entry of the named store when no store created before it has the key.
\<close>

theorem cacheFirst_hit:
  "(caches_match (caches w) rq = Some r \<longrightarrow>
      cacheFirstStrategy net rq cacheName w = (Inr r, w)) \<and>
   (store_entry (caches w) cacheName rq = Some r \<longrightarrow>
      (\<exists>r'. cacheFirstStrategy net rq cacheName w = (Inr r', w))) \<and>
   (store_entry (caches w) cacheName rq = Some r \<and>
    caches_match_key (takeWhile (\<lambda>p. fst p \<noteq> cacheName) (caches w)) (request_key rq) = None \<longrightarrow>
      cacheFirstStrategy net rq cacheName w = (Inr r, w))"
proof (intro conjI impI)
  assume "caches_match (caches w) rq = Some r"
  then show "cacheFirstStrategy net rq cacheName w = (Inr r, w)"
    by (simp add: cacheFirstStrategy_def)
next
  assume "store_entry (caches w) cacheName rq = Some r"
  then obtain r' where "caches_match (caches w) rq = Some r'"
    unfolding store_entry_def caches_match_def by (blast dest: caches_match_key_some)
  then show "\<exists>r'. cacheFirstStrategy net rq cacheName w = (Inr r', w)"
    by (simp add: cacheFirstStrategy_def)
next
  assume "store_entry (caches w) cacheName rq = Some r \<and>
    caches_match_key (takeWhile (\<lambda>p. fst p \<noteq> cacheName) (caches w)) (request_key rq) = None"
  then have "caches_match (caches w) rq = Some r"
    unfolding store_entry_def caches_match_def by (blast intro: caches_match_key_first)
  then show "cacheFirstStrategy net rq cacheName w = (Inr r, w)"
    by (simp add: cacheFirstStrategy_def)
qed

theorem cacheFirst_hit_witness:
  "caches_match (caches two_store_world) font_request = Some (ok_response ''old'') \<and>
   store_entry (caches two_store_world) STATIC_CACHE font_request = Some (ok_response ''old'') \<and>
   caches_match_key (takeWhile (\<lambda>p. fst p \<noteq> STATIC_CACHE) (caches two_store_world))
     (request_key font_request) = None \<and>
   cacheFirstStrategy offline_net font_request STATIC_CACHE two_store_world =
     (Inr (ok_response ''old''), two_store_world) \<and>
   fetched two_store_world = []"
  using cacheFirst_hit [of two_store_world font_request "ok_response ''old''" offline_net
      STATIC_CACHE]
  by (simp add: two_store_world_def caches_match_def cache_match_def store_entry_def
        store_def)

text \<open>
  C1 as stated fails: the dynamic store holds an entry for the font stylesheet, and
  the strategy, called with the dynamic store, returns the entry of the static store.
\<close>

theorem cacheFirst_named_store_counterexample:
  "store_entry (caches two_store_world) DYNAMIC_CACHE font_request = Some (ok_response ''new'') \<and>
   fst (cacheFirstStrategy offline_net font_request DYNAMIC_CACHE two_store_world) =
     Inr (ok_response ''old'') \<and>
   ok_response ''old'' \<noteq> ok_response ''new''"
  by (simp add: cacheFirstStrategy_def two_store_world_def caches_match_def cache_match_def
        store_entry_def store_def STATIC_CACHE_def DYNAMIC_CACHE_def ok_response_def)

text \<open>
  C3. When the lookup misses and the fetch throws, \<^verbatim>\<open>cacheFirstStrategy\<close> returns the
  offline page for a request whose destination is \<^verbatim>\<open>document\<close>, and the response of
  status 503 for any other request. The body of the offline page contains
  \<^verbatim>\<open>You're Offline\<close>.
\<close>

theorem cacheFirst_total_failure:
  "caches_match (caches w) rq = None \<and> net rq = NetError e \<longrightarrow>
     fst (cacheFirstStrategy net rq cacheName w) =
       Inr (if destination rq = ''document'' then createOfflinePage else unavailable) \<and>
     str_includes (body createOfflinePage) ''You're Offline'' \<and>
     status unavailable = 503"
  by (simp add: cacheFirstStrategy_def Let_def createOfflinePage_def offline_heading
        unavailable_def)

theorem cacheFirst_total_failure_witness:
  "caches_match (caches empty_world) page_request = None \<and>
   offline_net page_request = NetError ''Failed to fetch'' \<and>
   fst (cacheFirstStrategy offline_net page_request STATIC_CACHE empty_world) =
     Inr createOfflinePage \<and>
   caches_match (caches empty_world) logo_request = None \<and>
   offline_net logo_request = NetError ''Failed to fetch'' \<and>
   fst (cacheFirstStrategy offline_net logo_request STATIC_CACHE empty_world) =
     Inr unavailable"
  using cacheFirst_total_failure [of empty_world page_request offline_net
      "''Failed to fetch''" STATIC_CACHE]
    cacheFirst_total_failure [of empty_world logo_request offline_net
      "''Failed to fetch''" STATIC_CACHE]
  by (simp add: empty_world_def caches_match_def offline_net_def page_request_def
        logo_request_def)

text \<open>
  C6. When the lookup misses and the fetch succeeds, \<^verbatim>\<open>cacheFirstStrategy\<close> returns the
  network response after one fetch. With status 200 the named store then holds that
  response under the request's key and every other entry is as before; with any other
  status the cache storage is unchanged.
\<close>

theorem cacheFirst_miss_write_through:
  "caches_match (caches w) rq = None \<and> net rq = NetOk resp \<longrightarrow>
     fst (cacheFirstStrategy net rq cacheName w) = Inr resp \<and>
     fetched (snd (cacheFirstStrategy net rq cacheName w)) = fetched w @ [rq] \<and>
     (status resp = 200 \<longrightarrow>
        store_entry (caches (snd (cacheFirstStrategy net rq cacheName w))) cacheName rq
          = Some resp \<and>
        (\<forall>n q. n \<noteq> cacheName \<or> request_key q \<noteq> request_key rq \<longrightarrow>
           store_entry (caches (snd (cacheFirstStrategy net rq cacheName w))) n q
             = store_entry (caches w) n q)) \<and>
     (status resp \<noteq> 200 \<longrightarrow>
        caches (snd (cacheFirstStrategy net rq cacheName w)) = caches w)"
  by (auto simp: cacheFirstStrategy_def Let_def do_fetch_caches do_fetch_fetched
        store_entry_caches_put)

theorem cacheFirst_miss_write_through_witness:
  "caches_match (caches empty_world) logo_request = None \<and>
   net_of (ok_response ''png'') logo_request = NetOk (ok_response ''png'') \<and>
   status (ok_response ''png'') = 200 \<and>
   fst (cacheFirstStrategy (net_of (ok_response ''png'')) logo_request STATIC_CACHE empty_world)
     = Inr (ok_response ''png'') \<and>
   store_entry
     (caches (snd (cacheFirstStrategy (net_of (ok_response ''png'')) logo_request STATIC_CACHE
        empty_world)))
     STATIC_CACHE logo_request = Some (ok_response ''png'') \<and>
   net_of not_found_response logo_request = NetOk not_found_response \<and>
   status not_found_response \<noteq> 200 \<and>
   fst (cacheFirstStrategy (net_of not_found_response) logo_request STATIC_CACHE empty_world)
     = Inr not_found_response \<and>
   caches (snd (cacheFirstStrategy (net_of not_found_response) logo_request STATIC_CACHE
     empty_world)) = caches empty_world"
  using cacheFirst_miss_write_through [of empty_world logo_request
      "net_of (ok_response ''png'')" "ok_response ''png''" STATIC_CACHE]
    cacheFirst_miss_write_through [of empty_world logo_request
      "net_of not_found_response" not_found_response STATIC_CACHE]
  by (simp add: empty_world_def caches_match_def net_of_def ok_response_def
        not_found_response_def)

section \<open>Network-first strategy\<close>

text \<open>
  C4 (as the code has it). When the fetch throws, \<^verbatim>\<open>networkFirstStrategy\<close> looks the
  request up with \<^verbatim>\<open>caches.match(request)\<close>, over all stores: it returns the first
  entry found in any store, unchanged, and throws the network error again only when no
  store has one. It builds no response of its own and writes nothing.
\<close>

theorem networkFirst_failure:
  "net rq = NetError e \<longrightarrow>
     fst (networkFirstStrategy net rq cacheName w) =
       (case caches_match (caches w) rq of
          Some r \<Rightarrow> Inr r
        | None \<Rightarrow> Inl (NetworkError e)) \<and>
     caches (snd (networkFirstStrategy net rq cacheName w)) = caches w"
  by (simp add: networkFirstStrategy_def Let_def do_fetch_caches split: option.splits)

theorem networkFirst_failure_witness:
  "offline_net font_request = NetError ''Failed to fetch'' \<and>
   fst (networkFirstStrategy offline_net font_request DYNAMIC_CACHE two_store_world) =
     Inr (ok_response ''old'') \<and>
   fst (networkFirstStrategy offline_net font_request DYNAMIC_CACHE empty_world) =
     Inl (NetworkError ''Failed to fetch'')"
  using networkFirst_failure [of offline_net font_request "''Failed to fetch''"
      DYNAMIC_CACHE two_store_world]
    networkFirst_failure [of offline_net font_request "''Failed to fetch''"
      DYNAMIC_CACHE empty_world]
  by (simp add: offline_net_def two_store_world_def empty_world_def caches_match_def
        cache_match_def)

text \<open>
  C4 as stated fails: the dynamic store has no entry for the request and the fetch
  throws, yet the strategy, called with the dynamic store, does not throw: it returns
  the entry of the static store.
\<close>

theorem networkFirst_rethrow_counterexample:
  "offline_net font_request = NetError ''Failed to fetch'' \<and>
   store_entry (caches static_only_world) DYNAMIC_CACHE font_request = None \<and>
   fst (networkFirstStrategy offline_net font_request DYNAMIC_CACHE static_only_world) =
     Inr (ok_response ''old'')"
  by (simp add: networkFirstStrategy_def Let_def do_fetch_def static_only_world_def
        offline_net_def caches_match_def cache_match_def store_entry_def store_def
        STATIC_CACHE_def DYNAMIC_CACHE_def)

section \<open>Stale-while-revalidate strategy\<close>

text \<open>
  C5. If the lookup finds a cached copy, \<^verbatim>\<open>staleWhileRevalidateStrategy\<close> returns it
  whatever the network does (the value returned does not depend on how, or whether, the
  fetch settles). If the lookup finds none and the fetch fails, it returns the offline
  page.
\<close>

theorem staleWhileRevalidate_result:
  "(caches_match (caches w) rq = Some r \<longrightarrow>
      (\<forall>net. fst (staleWhileRevalidateStrategy net rq cacheName w) = Inr r)) \<and>
   (caches_match (caches w) rq = None \<and> net' rq = NetError e \<longrightarrow>
      fst (staleWhileRevalidateStrategy net' rq cacheName w) = Inr createOfflinePage)"
  by (simp add: staleWhileRevalidateStrategy_def fetchPromise_def Let_def)

theorem staleWhileRevalidate_result_witness:
  "caches_match (caches two_store_world) font_request = Some (ok_response ''old'') \<and>
   fst (staleWhileRevalidateStrategy offline_net font_request DYNAMIC_CACHE two_store_world)
     = Inr (ok_response ''old'') \<and>
   fst (staleWhileRevalidateStrategy (net_of (ok_response ''fresh'')) font_request
     DYNAMIC_CACHE two_store_world) = Inr (ok_response ''old'') \<and>
   caches_match (caches empty_world) page_request = None \<and>
   offline_net page_request = NetError ''Failed to fetch'' \<and>
   fst (staleWhileRevalidateStrategy offline_net page_request DYNAMIC_CACHE empty_world)
     = Inr createOfflinePage"
  using staleWhileRevalidate_result [of two_store_world font_request "ok_response ''old''"
      DYNAMIC_CACHE]
    staleWhileRevalidate_result [of empty_world page_request _ DYNAMIC_CACHE offline_net
      "''Failed to fetch''"]
  by (simp add: two_store_world_def empty_world_def caches_match_def cache_match_def
        offline_net_def)

text \<open>
  C10. For every request, state and network, \<^verbatim>\<open>staleWhileRevalidateStrategy\<close> settles
  with a response and never rejects, whereas \<^verbatim>\<open>networkFirstStrategy\<close> rejects when
  the fetch throws and the lookup finds nothing.
\<close>

theorem staleWhileRevalidate_total:
  "(\<exists>r. fst (staleWhileRevalidateStrategy net rq cacheName w) = Inr r) \<and>
   (caches_match (caches w) rq = None \<and> net rq = NetError e \<longrightarrow>
      fst (networkFirstStrategy net rq cacheName w) = Inl (NetworkError e))"
  by (simp add: staleWhileRevalidateStrategy_def networkFirstStrategy_def Let_def
        do_fetch_caches split: option.splits)

theorem staleWhileRevalidate_total_witness:
  "caches_match (caches empty_world) page_request = None \<and>
   offline_net page_request = NetError ''Failed to fetch'' \<and>
   (\<exists>r. fst (staleWhileRevalidateStrategy offline_net page_request DYNAMIC_CACHE empty_world)
      = Inr r) \<and>
   fst (networkFirstStrategy offline_net page_request DYNAMIC_CACHE empty_world) =
     Inl (NetworkError ''Failed to fetch'')"
  using staleWhileRevalidate_total [of offline_net page_request DYNAMIC_CACHE empty_world
      "''Failed to fetch''"]
  by (simp add: empty_world_def caches_match_def offline_net_def)

section \<open>Classifier and fetch listeners\<close>

text \<open>
  C7 (as the code has it). The listener tests \<^verbatim>\<open>isStaticAsset\<close> before
  \<^verbatim>\<open>isAPIRequest\<close>: every GET request over http(s) whose path ends in \<^verbatim>\<open>.css\<close> is a
  static asset and is served cache-first from the static store, whatever its host. A
  request of another host is an API request exactly when neither the static-asset test
  nor the font test matches it.
\<close>

theorem static_extension_precedes_cross_origin:
  "(endsWith (pathname rq) ''.css'' \<longrightarrow> classify loc rq = StaticAsset) \<and>
   (req_method rq = ''GET'' \<and> startsWith (url rq) ''http'' \<and>
    protocol rq \<noteq> ''chrome-extension:'' \<and> endsWith (pathname rq) ''.css'' \<longrightarrow>
      fetch_listener loc rq = RespondWith CacheFirst STATIC_CACHE) \<and>
   (hostname rq \<noteq> loc_hostname loc \<longrightarrow>
      (classify loc rq = ApiRequest \<longleftrightarrow> \<not> isStaticAsset rq \<and> \<not> isFont rq))"
  by (simp add: classify_def fetch_listener_def isStaticAsset_def isAPIRequest_def)

theorem static_extension_precedes_cross_origin_witness:
  "endsWith (pathname cdn_css_request) ''.css'' \<and>
   req_method cdn_css_request = ''GET'' \<and> startsWith (url cdn_css_request) ''http'' \<and>
   protocol cdn_css_request \<noteq> ''chrome-extension:'' \<and>
   hostname cdn_css_request \<noteq> loc_hostname app_location \<and>
   classify app_location cdn_css_request = StaticAsset \<and>
   fetch_listener app_location cdn_css_request = RespondWith CacheFirst STATIC_CACHE"
  using static_extension_precedes_cross_origin [of cdn_css_request app_location]
  by (simp add: cdn_css_request_def app_location_def endsWith_def startsWith_def
        suffix_to_prefix)

text \<open>
  C7 as stated fails: a GET request for a stylesheet of another host is classified as
  a static asset, not as an API request.
\<close>

theorem cross_origin_css_counterexample:
  "req_method cdn_css_request = ''GET'' \<and>
   endsWith (pathname cdn_css_request) ''.css'' \<and>
   hostname cdn_css_request \<noteq> loc_hostname app_location \<and>
   classify app_location cdn_css_request = StaticAsset \<and>
   classify app_location cdn_css_request \<noteq> ApiRequest"
  by (simp add: classify_def isStaticAsset_def cdn_css_request_def app_location_def
        endsWith_def suffix_to_prefix)

text \<open>
  C8 (as the code has it). For a request whose method is not GET, or whose URL does
  not start with \<^verbatim>\<open>http\<close>, the caching listener of the worker and the listener of the
  short worker decline. The worker as a whole passes such a request through, except a
  POST to the path \<^verbatim>\<open>/share-target\<close>, which its second listener answers with a
  redirect.
\<close>

theorem decline_rule:
  "req_method rq \<noteq> ''GET'' \<or> \<not> startsWith (url rq) ''http'' \<longrightarrow>
     fetch_listener loc rq = Declined \<and>
     \<not> sw_fetch_listener loc rq \<and>
     worker_fetch_event loc rq =
       (if pathname rq = ''/share-target'' \<and> req_method rq = ''POST''
        then Answer (handleShareTarget loc rq) else PassThrough)"
  by (auto simp: fetch_listener_def sw_fetch_listener_def worker_fetch_event_def
        share_target_listener_def)

theorem decline_rule_witness:
  "req_method post_request \<noteq> ''GET'' \<and>
   fetch_listener app_location post_request = Declined \<and>
   \<not> sw_fetch_listener app_location post_request \<and>
   worker_fetch_event app_location post_request = PassThrough \<and>
   \<not> startsWith (url extension_request) ''http'' \<and>
   fetch_listener app_location extension_request = Declined \<and>
   \<not> sw_fetch_listener app_location extension_request \<and>
   worker_fetch_event app_location extension_request = PassThrough"
  using decline_rule [of post_request app_location]
    decline_rule [of extension_request app_location]
  by (simp add: post_request_def extension_request_def startsWith_def)

text \<open>
  C8 as stated fails: the worker answers a POST to \<^verbatim>\<open>/share-target\<close> with a response
  of its own, a redirect of status 303.
\<close>

theorem share_target_counterexample:
  "req_method share_request \<noteq> ''GET'' \<and>
   worker_fetch_event app_location share_request =
     Answer \<lparr>status = 303, statusText = [],
       resp_headers = [(''Location'', ''https://example.com/?shared=true'')], body = []\<rparr>"
  by (simp add: worker_fetch_event_def fetch_listener_def share_target_listener_def
        handleShareTarget_def redirect_def share_request_def app_location_def)

section \<open>Fallback generator\<close>

text \<open>
  C9. \<^verbatim>\<open>createOfflinePage\<close> takes no input and always yields the same response: status
  200, \<^verbatim>\<open>Content-Type: text/html\<close>, \<^verbatim>\<open>Cache-Control: no-cache\<close>, and the fixed body with
  the offline message and the retry button that reloads the page. No strategy writes
  it: when the fetch throws, which is when a strategy calls the generator, the cache
  storage stays as it was, and an entry of a store after a strategy has run is either
  the entry from before or the response the network delivered.
\<close>

theorem createOfflinePage_contract:
  "status createOfflinePage = 200 \<and>
   map_of (resp_headers createOfflinePage) ''Content-Type'' = Some ''text/html'' \<and>
   map_of (resp_headers createOfflinePage) ''Cache-Control'' = Some ''no-cache'' \<and>
   body createOfflinePage = offline_body \<and>
   str_includes offline_body ''You're Offline'' \<and>
   str_includes offline_body ''Please check your internet connection and try again.'' \<and>
   str_includes offline_body
     ''<button class=\"retry-button\" onclick=\"window.location.reload()\">'' \<and>
   str_includes offline_body ''Try Again'' \<and>
   (net rq = NetError e \<longrightarrow> caches (snd (run_strategy s net rq name w)) = caches w) \<and>
   (store_entry (caches (snd (run_strategy s net rq name w))) n q = Some r \<longrightarrow>
      store_entry (caches w) n q = Some r \<or> net rq = NetOk r)"
proof -
  have "store_entry (caches (snd (run_strategy s net rq name w))) n q = Some r \<longrightarrow>
      store_entry (caches w) n q = Some r \<or> net rq = NetOk r"
    using strategy_writes [of s net rq name w n q r] by blast
  moreover have "net rq = NetError e \<longrightarrow>
      caches (snd (run_strategy s net rq name w)) = caches w"
    by (simp add: strategy_offline_no_write)
  ultimately show ?thesis
    by (simp add: createOfflinePage_def offline_heading offline_advice
          offline_retry_action offline_retry_label)
qed

theorem createOfflinePage_contract_witness:
  "offline_net page_request = NetError ''Failed to fetch'' \<and>
   fst (run_strategy StaleWhileRevalidate offline_net page_request DYNAMIC_CACHE empty_world)
     = Inr createOfflinePage \<and>
   caches (snd (run_strategy StaleWhileRevalidate offline_net page_request DYNAMIC_CACHE
     empty_world)) = caches empty_world \<and>
   store_entry
     (caches (snd (run_strategy CacheFirst (net_of (ok_response ''png'')) logo_request
        STATIC_CACHE empty_world)))
     STATIC_CACHE logo_request = Some (ok_response ''png'') \<and>
   net_of (ok_response ''png'') logo_request = NetOk (ok_response ''png'')"
proof -
  have entry: "store_entry
     (caches (snd (run_strategy CacheFirst (net_of (ok_response ''png'')) logo_request
        STATIC_CACHE empty_world)))
     STATIC_CACHE logo_request = Some (ok_response ''png'')"
    by (simp add: run_strategy_def cacheFirstStrategy_def Let_def empty_world_def
          caches_match_def net_of_def ok_response_def do_fetch_def store_entry_caches_put)
  have page: "fst (run_strategy StaleWhileRevalidate offline_net page_request DYNAMIC_CACHE
      empty_world) = Inr createOfflinePage"
    by (simp add: run_strategy_def staleWhileRevalidateStrategy_def fetchPromise_def Let_def
          empty_world_def caches_match_def offline_net_def)
  show ?thesis
    using entry page
      createOfflinePage_contract [of offline_net page_request "''Failed to fetch''"
        StaleWhileRevalidate DYNAMIC_CACHE empty_world]
      createOfflinePage_contract [of "net_of (ok_response ''png'')" logo_request _
        CacheFirst STATIC_CACHE empty_world STATIC_CACHE logo_request "ok_response ''png''"]
    by (simp add: offline_net_def net_of_def empty_world_def store_entry_def store_def
          cache_match_def)
qed

section \<open>The write of the short worker\<close>

text \<open>
  C2 (where the code departs from it). The three strategies write responses of status
  200 only (\<open>strategy_keeps_status_200\<close>). The listener of the short worker writes what
  the fetch returned without a test of the status: it responds to a GET request for a
  file of the application that the server does not have, and stores the response of
  status 404 in its dynamic store.
\<close>

theorem sw_caches_error_response:
  "sw_fetch_listener app_location logo_request \<and>
   status not_found_response = 404 \<and>
   store_entry (caches empty_world) SW_DYNAMIC_CACHE logo_request = None \<and>
   fst (sw_respond (net_of not_found_response) app_location logo_request empty_world) =
     Inr not_found_response \<and>
   store_entry
     (caches (snd (sw_respond (net_of not_found_response) app_location logo_request
        empty_world)))
     SW_DYNAMIC_CACHE logo_request = Some not_found_response"
proof -
  have "sw_fetch_listener app_location logo_request"
    by (simp add: sw_fetch_listener_def logo_request_def app_location_def startsWith_def
          BASE_URL_def)
  moreover have "store_entry (caches empty_world) SW_DYNAMIC_CACHE logo_request = None"
    by (simp add: empty_world_def store_entry_def store_def cache_match_def)
  moreover have "sw_respond (net_of not_found_response) app_location logo_request empty_world
      = (Inr not_found_response,
         \<lparr>caches = caches_put SW_DYNAMIC_CACHE logo_request not_found_response [],
          fetched = [logo_request]\<rparr>)"
    by (simp add: sw_respond_def Let_def empty_world_def caches_match_def net_of_def
          do_fetch_def)
  ultimately show ?thesis
    by (simp add: store_entry_caches_put not_found_response_def)
qed

end
